theory Spec2Isabelle
  imports Complex_Main "HOL-Library.Log_Nat" "HOL-Library.Multiset"
begin

section \<open>JavaScript numbers\<close>

text \<open>
  Every \<^verbatim>\<open>number\<close> of the program is an IEEE 754 binary64 value. A finite double is a
  rational, so the model computes with rationals and rounds the exact result of every
  \<^verbatim>\<open>+\<close>, \<^verbatim>\<open>-\<close> and \<^verbatim>\<open>*\<close> to the nearest double, ties to the even significand, as
  the language does. A decimal literal such as \<^verbatim>\<open>0.05\<close> denotes the double nearest to it.

  Three things of binary64 are left out, none of which the program can reach: infinities
  and NaN (no division, no operand that is not a number, and magnitudes stay far below
  \<open>2 ^ 1024\<close> for every array an engine can hold), and the sign of zero (nothing here
  divides by a number or prints its sign). \<^verbatim>\<open>Math.max\<close> and \<^verbatim>\<open>Math.min\<close> of two numbers are
  exact, so they are \<open>max\<close> and \<open>min\<close>.
\<close>

type_synonym number = rat

definition ilog2 :: "rat \<Rightarrow> int" where
  \<comment> \<open>for \<open>0 < x\<close>: the exponent \<open>e\<close> with \<open>2 powi e \<le> x < 2 powi (e + 1)\<close>\<close>
  "ilog2 x = (if 1 \<le> x then bitlen \<lfloor>x\<rfloor> - 1 else - bitlen (\<lceil>1 / x\<rceil> - 1))"

definition roundTiesToEven :: "rat \<Rightarrow> int" where
  "roundTiesToEven y =
     (let n = \<lfloor>y\<rfloor>; f = y - of_int n
      in if f < 1 / 2 then n
         else if 1 / 2 < f then n + 1
         else if even n then n else n + 1)"

definition double :: "rat \<Rightarrow> number" where
  \<comment> \<open>the double nearest to \<open>x\<close>: 53 significant bits, least exponent \<open>- 1074\<close>\<close>
  "double x =
     (if x = 0 then 0
      else let q = 2 powi (max (ilog2 \<bar>x\<bar> - 52) (- 1074))
           in of_int (roundTiesToEven (x / q)) * q)"

definition js_add :: "number \<Rightarrow> number \<Rightarrow> number" where
  "js_add a b = double (a + b)"

definition js_sub :: "number \<Rightarrow> number \<Rightarrow> number" where
  "js_sub a b = double (a - b)"

definition js_mul :: "number \<Rightarrow> number \<Rightarrow> number" where
  "js_mul a b = double (a * b)"


section \<open>Constants and the activity catalog\<close>

definition SimulationSpeed :: nat where
  "SimulationSpeed = 60"

definition MaxDataLength :: nat where
  "MaxDataLength = 2 * 24 * 60"

definition DopamineReserveRefillPerMinuteInPercent :: number where
  "DopamineReserveRefillPerMinuteInPercent = double (1 / 10)"

definition DopamineBaseTurnOverPerMinuteInPercent :: number where
  "DopamineBaseTurnOverPerMinuteInPercent = double (1 / 20)"

record ActivityDefinition =
  label :: string
  duration :: nat
  factor :: number

text \<open>
  \<^verbatim>\<open>type Activity = keyof typeof ACTIVITIES\<close>: the eight keys of the object literal, and
  nothing else, are the values of the type.
\<close>

datatype Activity = sleep | work | play | amphetamine | chocolate | sex | excercise | smoke

fun ACTIVITIES :: "Activity \<Rightarrow> ActivityDefinition" where
  "ACTIVITIES sleep = \<lparr>label = ''Sleep'', duration = 60 * 8, factor = double (- (3 / 4))\<rparr>"
| "ACTIVITIES work = \<lparr>label = ''Work'', duration = 60 * 8, factor = double (3 / 2)\<rparr>"
| "ACTIVITIES play = \<lparr>label = ''Play'', duration = 60 * 2, factor = 2\<rparr>"
| "ACTIVITIES amphetamine = \<lparr>label = ''Take Amphetamine'', duration = 1, factor = 10\<rparr>"
| "ACTIVITIES chocolate = \<lparr>label = ''Eat Chocolate'', duration = 5, factor = double (3 / 2)\<rparr>"
| "ACTIVITIES sex = \<lparr>label = ''Sex'', duration = 30, factor = 2\<rparr>"
| "ACTIVITIES excercise = \<lparr>label = ''Excercise'', duration = 30, factor = 2\<rparr>"
| "ACTIVITIES smoke = \<lparr>label = ''Smoke'', duration = 5, factor = double (5 / 2)\<rparr>"

fun key :: "Activity \<Rightarrow> string" where
  "key sleep = ''sleep''"
| "key work = ''work''"
| "key play = ''play''"
| "key amphetamine = ''amphetamine''"
| "key chocolate = ''chocolate''"
| "key sex = ''sex''"
| "key excercise = ''excercise''"
| "key smoke = ''smoke''"

definition Object_keys_ACTIVITIES :: "Activity list" where
  \<comment> \<open>\<^verbatim>\<open>Object.keys(ACTIVITIES)\<close>: the keys in the order the literal lists them\<close>
  "Object_keys_ACTIVITIES = [sleep, work, play, amphetamine, chocolate, sex, excercise, smoke]"


section \<open>Consumption\<close>

definition dopamineTurnover :: "Activity \<Rightarrow> number \<Rightarrow> number" where
  "dopamineTurnover activity t =
     (let baseline = DopamineBaseTurnOverPerMinuteInPercent;
          factor = factor (ACTIVITIES activity)
      in js_mul baseline factor)"

definition totalDopamineUse :: "Activity list \<Rightarrow> number \<Rightarrow> number" where
  \<comment> \<open>\<^verbatim>\<open>reduce((a, b) => a + b, 0)\<close> adds from the left, starting at \<open>0\<close>\<close>
  "totalDopamineUse activities t =
     js_add DopamineBaseTurnOverPerMinuteInPercent
       (foldl (\<lambda>a b. js_add a b) 0 (map (\<lambda>activity. dopamineTurnover activity 0) activities))"

definition instantaneousConsumption :: "Activity list \<Rightarrow> rat" where
  \<comment> \<open>Modelled from the spec's words (section 4.2), in exact arithmetic: the baseline
      \<open>0.05\<close> plus the sum over the active activities of baseline times factor. It is
      the value that \<open>totalDopamineUse\<close> is compared with.\<close>
  "instantaneousConsumption activeSet =
     1 / 20 + (\<Sum>a\<leftarrow>activeSet. 1 / 20 * factor (ACTIVITIES a))"


definition slack :: "nat \<Rightarrow> rat" where
  \<comment> \<open>the rounding error that \<open>k\<close> additions of terms of size at most a half can
      accumulate; used to bound \<open>totalDopamineUse\<close> against \<open>instantaneousConsumption\<close>\<close>
  "slack k = of_nat (k * (k + 1)) / 2 ^ 54"


section \<open>The toggle handler\<close>

definition onActivityToggle :: "Activity list \<Rightarrow> Activity \<Rightarrow> bool \<Rightarrow> Activity list" where
  \<comment> \<open>the list handed to \<^verbatim>\<open>setActivities\<close>; the first argument is the closure's \<^verbatim>\<open>activities\<close>\<close>
  "onActivityToggle activities activity value =
     (if value then activities @ [activity]
      else filter (\<lambda>a. a \<noteq> activity) activities)"


section \<open>The catalog at run time\<close>

text \<open>
  The type \<open>Activity\<close> exists at compile time only. At run time an activity is a string
  and \<^verbatim>\<open>ACTIVITIES[activity]\<close> is a property read on a plain object: an own property
  yields its definition, a name inherited from \<^verbatim>\<open>Object.prototype\<close> yields that member,
  and any other name yields \<^verbatim>\<open>undefined\<close>. Reading \<^verbatim>\<open>.factor\<close> of \<^verbatim>\<open>undefined\<close> throws a
  \<^verbatim>\<open>TypeError\<close>; an inherited member has no \<^verbatim>\<open>factor\<close>, and the product of the baseline
  with \<^verbatim>\<open>undefined\<close> is NaN.
\<close>

datatype error = TypeError

datatype property = Undefined | Inherited | Definition ActivityDefinition

datatype result = NaN | Number number

definition Object_prototype_names :: "string list" where
  "Object_prototype_names =
     [''constructor'', ''__defineGetter__'', ''__defineSetter__'', ''hasOwnProperty'',
      ''__lookupGetter__'', ''__lookupSetter__'', ''isPrototypeOf'', ''propertyIsEnumerable'',
      ''toString'', ''valueOf'', ''__proto__'', ''toLocaleString'']"

definition ACTIVITIES_object :: "(string \<times> ActivityDefinition) list" where
  "ACTIVITIES_object = map (\<lambda>a. (key a, ACTIVITIES a)) Object_keys_ACTIVITIES"

definition getProperty :: "string \<Rightarrow> property" where
  "getProperty name =
     (case map_of ACTIVITIES_object name of
        Some d \<Rightarrow> Definition d
      | None \<Rightarrow> if name \<in> set Object_prototype_names then Inherited else Undefined)"

definition dopamineTurnover_untyped :: "string \<Rightarrow> number \<Rightarrow> error + result" where
  "dopamineTurnover_untyped activity t =
     (let baseline = DopamineBaseTurnOverPerMinuteInPercent
      in case getProperty activity of
           Undefined \<Rightarrow> Inl TypeError
         | Inherited \<Rightarrow> Inr NaN
         | Definition d \<Rightarrow> Inr (Number (js_mul baseline (factor d))))"


section \<open>Samples and the state of the component\<close>

text \<open>
  The repository holds two revisions of the component: \<^verbatim>\<open>src/Model/Model.tsx\<close>, and a
  later one (\<^verbatim>\<open>part_002\<close>) that replaces \<^verbatim>\<open>minuteOfDay\<close> by \<^verbatim>\<open>minuteSinceStart\<close> and adds
  a clock label. They share everything else; what belongs to the later revision carries
  the suffix \<open>2\<close>. The minute fields hold array lengths and counters, whole numbers far
  below \<open>2 ^ 53\<close>, on which double arithmetic is exact: they are naturals.
\<close>

fun toString_nat :: "nat \<Rightarrow> string" where
  "toString_nat n =
     (if n < 10 then [char_of (48 + n)]
      else toString_nat (n div 10) @ [char_of (48 + n mod 10)])"

definition minuteSinceStartToDaytime :: "nat \<Rightarrow> string" where
  "minuteSinceStartToDaytime minuteSinceStart =
     (let minuteOfDay = minuteSinceStart mod (24 * 60);
          daytimeHour = minuteOfDay div 60;
          minuteOfDayInHour = minuteOfDay mod 60
      in toString_nat daytimeHour @ '':'' @ (if minuteOfDayInHour < 10 then ''0'' else [])
           @ toString_nat minuteOfDayInHour)"

record DataPoint =
  minuteOfDay :: nat
  dopamineLevel :: number
  reservePercent :: number
  activities :: "Activity list"

record DataPoint2 =
  minuteSinceStart :: nat
  daytime :: string
  dopamineLevel :: number
  reservePercent :: number
  activities :: "Activity list"

text \<open>
  The three \<^verbatim>\<open>useState\<close> cells of \<^verbatim>\<open>Model\<close> that are ever written, and the pending
  \<^verbatim>\<open>setTimeout\<close> calls of the switches. A pending call holds the \<^verbatim>\<open>onToggle\<close> of the
  render in which the click happened, and with it that render's \<^verbatim>\<open>activities\<close>.
\<close>

record 'd State =
  pool :: number
  data :: "'d list"
  activities :: "Activity list"
  timers :: "(Activity \<times> Activity list) list"

definition initialData :: "DataPoint list" where
  "initialData =
     map (\<lambda>i. \<lparr>minuteOfDay = i,
                dopamineLevel = DopamineBaseTurnOverPerMinuteInPercent,
                reservePercent = 50,
                activities = []\<rparr>)
       [0..<MaxDataLength]"

definition initialData2 :: "DataPoint2 list" where
  "initialData2 =
     map (\<lambda>i. \<lparr>minuteSinceStart = i,
                daytime = minuteSinceStartToDaytime i,
                dopamineLevel = DopamineBaseTurnOverPerMinuteInPercent,
                reservePercent = 50,
                activities = []\<rparr>)
       [0..<MaxDataLength]"

definition initialState :: "DataPoint State" where
  "initialState = \<lparr>pool = 50, data = initialData, activities = [], timers = []\<rparr>"

definition initialState2 :: "DataPoint2 State" where
  "initialState2 = \<lparr>pool = 50, data = initialData2, activities = [], timers = []\<rparr>"


section \<open>The simulation tick\<close>

definition tick :: "DataPoint State \<Rightarrow> DataPoint State" where
  "tick s =
     (let dopamineNeed = totalDopamineUse (State.activities s) 0;
          dopamineDiff = js_sub DopamineReserveRefillPerMinuteInPercent dopamineNeed;
          newPool = max 0 (min 100 (js_add (pool s) dopamineDiff));
          newData = data s @
            [\<lparr>minuteOfDay = length (data s),
              dopamineLevel = dopamineNeed,
              reservePercent = newPool,
              activities = State.activities s\<rparr>];
          newData = (if length newData > 2 * 24 * 60 then tl newData else newData)
      in s\<lparr>pool := newPool, data := newData\<rparr>)"

text \<open>
  The later revision reads the last sample before it appends. On an empty array
  \<^verbatim>\<open>data[data.length - 1]\<close> is \<^verbatim>\<open>undefined\<close> and the read of \<^verbatim>\<open>.minuteSinceStart\<close> throws:
  the callback ends there, without a new buffer. (The component body reads the same
  element on every render, so a state with an empty buffer is never shown either.)
\<close>

definition tick2 :: "DataPoint2 State \<Rightarrow> error + DataPoint2 State" where
  "tick2 s =
     (let dopamineNeed = totalDopamineUse (State.activities s) 0;
          dopamineDiff = js_sub DopamineReserveRefillPerMinuteInPercent dopamineNeed;
          newPool = max 0 (min 100 (js_add (pool s) dopamineDiff))
      in if data s = [] then Inl TypeError
         else
           let minuteSinceStart = minuteSinceStart (last (data s)) + 1;
               newData = data s @
                 [\<lparr>minuteSinceStart = minuteSinceStart,
                   daytime = minuteSinceStartToDaytime minuteSinceStart,
                   dopamineLevel = dopamineNeed,
                   reservePercent = newPool,
                   activities = State.activities s\<rparr>];
               newData = (if length newData > 2 * 24 * 60 then tl newData else newData)
           in Inr (s\<lparr>pool := newPool, data := newData\<rparr>))"


section \<open>Clicks and pending auto-off calls\<close>

definition onClick :: "'d State \<Rightarrow> Activity \<Rightarrow> 'd State" where
  \<comment> \<open>\<^verbatim>\<open>ActivitySwitch\<close>: a disabled button receives no click\<close>
  "onClick s activity =
     (if pool s < 1 then s
      else
        let active = (activity \<in> set (State.activities s));
            newState = (\<not> active);
            s' = s\<lparr>activities := onActivityToggle (State.activities s) activity newState\<rparr>
        in if newState then s'\<lparr>timers := timers s @ [(activity, State.activities s)]\<rparr>
           else s')"

definition onTimeout :: "'d State \<Rightarrow> Activity \<times> Activity list \<Rightarrow> 'd State" where
  \<comment> \<open>a pending auto-off call runs: \<^verbatim>\<open>props.onToggle(props.activity, false)\<close> of its render\<close>
  "onTimeout s timer =
     s\<lparr>activities := onActivityToggle (snd timer) (fst timer) False,
       timers := remove1 timer (timers s)\<rparr>"

inductive reachable :: "DataPoint State \<Rightarrow> bool" where
  init: "reachable initialState"
| tick: "reachable s \<Longrightarrow> reachable (tick s)"
| click: "reachable s \<Longrightarrow> reachable (onClick s activity)"
| timeout: "reachable s \<Longrightarrow> timer \<in> set (timers s) \<Longrightarrow> reachable (onTimeout s timer)"

inductive reachable2 :: "DataPoint2 State \<Rightarrow> bool" where
  init2: "reachable2 initialState2"
| tick2: "reachable2 s \<Longrightarrow> tick2 s = Inr s' \<Longrightarrow> reachable2 s'"
| click2: "reachable2 s \<Longrightarrow> reachable2 (onClick s activity)"
| timeout2: "reachable2 s \<Longrightarrow> timer \<in> set (timers s) \<Longrightarrow> reachable2 (onTimeout s timer)"


section \<open>Rounding to double\<close>

text \<open>
  The exponent that \<open>ilog2\<close> computes is the right one, rounding to an integer is off
  by at most a half, and so \<open>double\<close> is off by at most half a unit in the last place.
  \<open>double_cert\<close> evaluates \<open>double\<close> at a given number from the scaled significand.
\<close>

lemma ilog2_ge1:
  assumes "1 \<le> x"
  shows "2 powi (ilog2 x) \<le> x \<and> x < 2 powi (ilog2 x + 1)"
proof -
  define n where "n = \<lfloor>x\<rfloor>"
  have n1: "1 \<le> n" using assms by (simp add: n_def)
  then have npos: "0 < n" by simp
  have bl: "1 \<le> bitlen n" using npos by (simp add: bitlen_ge_iff_power)
  from bitlen_bounds [OF npos]
  have lo: "2 ^ nat (bitlen n - 1) \<le> n" and hi: "n < 2 ^ nat (bitlen n)" by simp_all
  have e: "ilog2 x = bitlen n - 1" using assms by (simp add: ilog2_def n_def)
  have "(2::rat) powi (bitlen n - 1) = 2 ^ nat (bitlen n - 1)"
    using bl by (simp add: power_int_nonneg_exp)
  also have "\<dots> = of_int (2 ^ nat (bitlen n - 1))" by simp
  also have "\<dots> \<le> of_int n" using lo by (simp only: of_int_le_iff)
  also have "\<dots> \<le> x" by (simp add: n_def)
  finally have A: "2 powi (ilog2 x) \<le> x" by (simp add: e)
  have "x < of_int (n + 1)" unfolding n_def by linarith
  also have "\<dots> \<le> of_int (2 ^ nat (bitlen n))"
  proof -
    have "n + 1 \<le> 2 ^ nat (bitlen n)" using hi by simp
    then show ?thesis by (simp only: of_int_le_iff)
  qed
  also have "\<dots> = (2::rat) ^ nat (bitlen n)" by simp
  also have "\<dots> = 2 powi (bitlen n)" using bl by (simp add: power_int_nonneg_exp)
  finally have B: "x < 2 powi (ilog2 x + 1)" by (simp add: e)
  from A B show ?thesis ..
qed

lemma ilog2_lt1:
  assumes "0 < x" "x < 1"
  shows "2 powi (ilog2 x) \<le> x \<and> x < 2 powi (ilog2 x + 1)"
proof -
  define m where "m = \<lceil>1 / x\<rceil> - 1"
  have y1: "1 < 1 / x" using assms by simp
  have m1: "1 \<le> m" using y1 by (simp add: m_def less_ceiling_iff)
  then have mpos: "0 < m" by simp
  have bl: "1 \<le> bitlen m" using mpos by (simp add: bitlen_ge_iff_power)
  from bitlen_bounds [OF mpos]
  have lo: "2 ^ nat (bitlen m - 1) \<le> m" and hi: "m < 2 ^ nat (bitlen m)" by simp_all
  have e: "ilog2 x = - bitlen m" using assms by (simp add: ilog2_def m_def)
  have "1 / x \<le> of_int (m + 1)" by (simp add: m_def)
  also have "\<dots> \<le> of_int (2 ^ nat (bitlen m))"
  proof -
    have "m + 1 \<le> 2 ^ nat (bitlen m)" using hi by simp
    then show ?thesis by (simp only: of_int_le_iff)
  qed
  also have "\<dots> = (2::rat) ^ nat (bitlen m)" by simp
  finally have "1 / x \<le> 2 ^ nat (bitlen m)" .
  then have "1 / 2 ^ nat (bitlen m) \<le> x" using assms
    by (simp add: field_simps)
  moreover have "(2::rat) powi (- bitlen m) = 1 / 2 ^ nat (bitlen m)"
    using bl by (simp add: power_int_def field_simps)
  ultimately have A: "2 powi (ilog2 x) \<le> x" by (simp add: e)
  have "(2::rat) ^ nat (bitlen m - 1) = of_int (2 ^ nat (bitlen m - 1))" by simp
  also have "\<dots> \<le> of_int m" using lo by (simp only: of_int_le_iff)
  also have "\<dots> < 1 / x" unfolding m_def by (simp only: of_int_diff of_int_1) linarith
  finally have "2 ^ nat (bitlen m - 1) < 1 / x" .
  then have "x < 1 / 2 ^ nat (bitlen m - 1)" using assms
    by (simp add: field_simps)
  moreover have "(2::rat) powi (- bitlen m + 1) = 1 / 2 ^ nat (bitlen m - 1)"
    using bl by (simp add: power_int_def field_simps)
  ultimately have B: "x < 2 powi (ilog2 x + 1)" by (simp add: e)
  from A B show ?thesis ..
qed

lemma ilog2_bounds:
  "0 < x \<Longrightarrow> 2 powi (ilog2 x) \<le> x \<and> x < 2 powi (ilog2 x + 1)"
  using ilog2_ge1 [of x] ilog2_lt1 [of x] by (cases "1 \<le> x") auto


lemma ilog2_eqI:
  assumes "2 powi e \<le> x" "x < 2 powi (e + 1)"
  shows "ilog2 x = e"
proof -
  have "0 < (2::rat) powi e" by (simp add: zero_less_power_int)
  then have pos: "0 < x" using assms(1) by linarith
  from ilog2_bounds [OF pos]
  have lo: "2 powi (ilog2 x) \<le> x" and hi: "x < 2 powi (ilog2 x + 1)" by simp_all
  have a: "e < ilog2 x + 1"
  proof (rule ccontr)
    assume "\<not> e < ilog2 x + 1"
    then have "(2::rat) powi (ilog2 x + 1) \<le> 2 powi e"
      by (intro power_int_increasing) simp_all
    then show False using assms(1) hi by linarith
  qed
  have b: "ilog2 x < e + 1"
  proof (rule ccontr)
    assume "\<not> ilog2 x < e + 1"
    then have "(2::rat) powi (e + 1) \<le> 2 powi (ilog2 x)"
      by (intro power_int_increasing) simp_all
    then show False using assms(2) lo by linarith
  qed
  from a b show ?thesis by simp
qed

lemma roundTiesToEven_error: "\<bar>of_int (roundTiesToEven y) - y\<bar> \<le> 1 / 2"
proof -
  define n where "n = \<lfloor>y\<rfloor>"
  have "of_int n \<le> y" "y < of_int n + 1" unfolding n_def by linarith+
  then show ?thesis
    unfolding roundTiesToEven_def Let_def n_def [symmetric]
    by (auto simp: abs_le_iff)
qed

lemma roundTiesToEven_eqI:
  assumes "\<bar>y - of_int m\<bar> < 1 / 2"
  shows "roundTiesToEven y = m"
proof (cases "of_int m \<le> y")
  case True
  then have "\<lfloor>y\<rfloor> = m" using assms by (intro floor_unique) (simp_all add: abs_less_iff)
  then show ?thesis using assms True
    by (simp add: roundTiesToEven_def Let_def abs_less_iff)
next
  case False
  then have "\<lfloor>y\<rfloor> = m - 1" using assms by (intro floor_unique) (simp_all add: abs_less_iff)
  then show ?thesis using assms False
    by (simp add: roundTiesToEven_def Let_def abs_less_iff)
qed


lemma double_error: "\<bar>double x - x\<bar> \<le> max (\<bar>x\<bar> / 2 ^ 53) (2 powi (- 1075))"
proof (cases "x = 0")
  case True
  then show ?thesis by (simp add: double_def zero_le_power_int)
next
  case False
  define k where "k = max (ilog2 \<bar>x\<bar> - 52) (- 1074)"
  define q :: rat where "q = 2 powi k"
  have qpos: "0 < q" by (simp add: q_def zero_less_power_int)
  have d: "double x = of_int (roundTiesToEven (x / q)) * q"
    using False by (simp add: double_def Let_def q_def k_def)
  have "double x - x = (of_int (roundTiesToEven (x / q)) - x / q) * q"
    using qpos by (simp add: d field_simps)
  then have "\<bar>double x - x\<bar> = \<bar>of_int (roundTiesToEven (x / q)) - x / q\<bar> * q"
    using qpos by (simp add: abs_mult)
  also have "\<dots> \<le> 1 / 2 * q"
    using roundTiesToEven_error [of "x / q"] qpos by (intro mult_right_mono) simp_all
  finally have e: "\<bar>double x - x\<bar> \<le> q / 2" by simp
  have xpos: "0 < \<bar>x\<bar>" using False by simp
  have half: "(2::rat) powi (j - 1) = 2 powi j / 2" for j
    by (simp add: power_int_diff)
  show ?thesis
  proof (cases "- 1074 \<le> ilog2 \<bar>x\<bar> - 52")
    case True
    then have "k = ilog2 \<bar>x\<bar> - 52" unfolding k_def by linarith
    then have "q = 2 powi (ilog2 \<bar>x\<bar> - 52)" by (simp add: q_def)
    also have "\<dots> = 2 powi (ilog2 \<bar>x\<bar>) / 2 ^ 52"
      by (simp add: power_int_diff)
    also have "\<dots> \<le> \<bar>x\<bar> / 2 ^ 52"
      using ilog2_bounds [OF xpos] by (simp add: divide_right_mono)
    finally have "q / 2 \<le> \<bar>x\<bar> / 2 ^ 53" by simp
    then have "\<bar>double x - x\<bar> \<le> \<bar>x\<bar> / 2 ^ 53" using e by (rule order_trans [rotated])
    then show ?thesis by (rule max.coboundedI1)
  next
    case False
    then have "k = - 1074" unfolding k_def by linarith
    then have "q / 2 = 2 powi (- 1074) / 2" by (simp only: q_def)
    also have "\<dots> = 2 powi (- 1075)"
    proof -
      have "(2::rat) powi (- 1075) = 2 powi (- 1074 - 1)"
        by (rule arg_cong [where f = "\<lambda>j. 2 powi j"]) simp
      then show ?thesis using half [of "- 1074"] by (simp only:)
    qed
    finally have "\<bar>double x - x\<bar> \<le> 2 powi (- 1075)" using e by (simp only:)
    then show ?thesis by (rule max.coboundedI2)
  qed
qed


lemma roundTiesToEven_tie:
  assumes "y = of_int n + 1 / 2"
  shows "roundTiesToEven y = (if even n then n else n + 1)"
proof -
  have "\<lfloor>y\<rfloor> = n" using assms by (intro floor_unique) simp_all
  then show ?thesis using assms by (simp add: roundTiesToEven_def Let_def)
qed

lemma double_scaled:
  assumes q: "q = 2 powi k" and k: "- 1074 \<le> k"
    and lo: "2 ^ 52 * q \<le> \<bar>x\<bar>" and hi: "\<bar>x\<bar> < 2 ^ 53 * q"
  shows "double x = of_int (roundTiesToEven (x / q)) * q"
proof -
  have qpos: "0 < q" by (simp add: q zero_less_power_int)
  have "0 < 2 ^ 52 * q" using qpos by (intro mult_pos_pos) simp_all
  then have "0 < \<bar>x\<bar>" using lo by (rule less_le_trans)
  then have nz: "x \<noteq> 0" by simp
  have "(2::rat) powi (k + 52) = 2 powi k * 2 powi 52" by (rule power_int_add) simp
  also have "\<dots> = 2 ^ 52 * q" by (simp only: q power_int_numeral mult.commute)
  finally have a: "2 powi (k + 52) \<le> \<bar>x\<bar>" using lo by (simp only:)
  have "(2::rat) powi (k + 52 + 1) = 2 powi k * 2 powi 53"
  proof -
    have "k + 52 + 1 = k + 53" by simp
    then show ?thesis using power_int_add [of "2::rat" k 53] by (simp only:) simp
  qed
  also have "\<dots> = 2 ^ 53 * q" by (simp only: q power_int_numeral mult.commute)
  finally have b: "\<bar>x\<bar> < 2 powi (k + 52 + 1)" using hi by (simp only:)
  have l: "ilog2 \<bar>x\<bar> = k + 52" using a b by (rule ilog2_eqI)
  have "max (ilog2 \<bar>x\<bar> - 52) (- 1074) = k" using k l by linarith
  then show ?thesis using nz by (simp add: double_def Let_def q)
qed

lemma double_cert_tie:
  assumes q: "q = 2 powi k" and k: "- 1074 \<le> k"
    and lo: "2 ^ 52 * q \<le> \<bar>x\<bar>" and hi: "\<bar>x\<bar> < 2 ^ 53 * q"
    and n: "x / q = of_int n + 1 / 2" and r: "r = of_int (if even n then n else n + 1) * q"
  shows "double x = r"
  using double_scaled [OF q k lo hi] roundTiesToEven_tie [OF n] r by simp

lemma double_cert:
  assumes q: "q = 2 powi k" and k: "- 1074 \<le> k"
    and lo: "2 ^ 52 * q \<le> \<bar>x\<bar>" and hi: "\<bar>x\<bar> < 2 ^ 53 * q"
    and m: "\<bar>x / q - of_int m\<bar> < 1 / 2" and r: "r = of_int m * q"
  shows "double x = r"
  using double_scaled [OF q k lo hi] roundTiesToEven_eqI [OF m] r by simp


section \<open>The values the program computes\<close>

text \<open>
  Each fact below is one rounding that the program performs, at the numbers it meets: the
  literals, the turnover of each activity, and the sums of the scenarios.
\<close>

lemma double_literal_0_05: "double (1 / 20) = 3602879701896397 / 72057594037927936"
  by (rule double_cert [where k = "- 57" and m = "7205759403792794" and q = "1 / 2 ^ 57"])
     (simp_all add: power_int_minus_divide)

lemma double_literal_0_1: "double (1 / 10) = 3602879701896397 / 36028797018963968"
  by (rule double_cert [where k = "- 56" and m = "7205759403792794" and q = "1 / 2 ^ 56"])
     (simp_all add: power_int_minus_divide)

lemma double_literal_minus_0_75: "double (- (3 / 4)) = - (3 / 4)"
  by (rule double_cert [where k = "- 53" and m = "- 6755399441055744" and q = "1 / 2 ^ 53"])
     (simp_all add: power_int_minus_divide)

lemma double_literal_1_5: "double (3 / 2) = 3 / 2"
  by (rule double_cert [where k = "- 52" and m = "6755399441055744" and q = "1 / 2 ^ 52"])
     (simp_all add: power_int_minus_divide)

lemma double_literal_2_5: "double (5 / 2) = 5 / 2"
  by (rule double_cert [where k = "- 51" and m = "5629499534213120" and q = "1 / 2 ^ 51"])
     (simp_all add: power_int_minus_divide)

lemma double_turnover_sleep: "double (- (10808639105689191 / 288230376151711744)) = - (1351079888211149 / 36028797018963968)"
  by (rule double_cert_tie [where k = "- 57" and n = "- 5404319552844596" and q = "1 / 2 ^ 57"])
     (simp_all add: power_int_minus_divide)

lemma double_turnover_work: "double (10808639105689191 / 144115188075855872) = 1351079888211149 / 18014398509481984"
  by (rule double_cert_tie [where k = "- 56" and n = "5404319552844595" and q = "1 / 2 ^ 56"])
     (simp_all add: power_int_minus_divide)

lemma double_turnover_play: "double (3602879701896397 / 36028797018963968) = 3602879701896397 / 36028797018963968"
  by (rule double_cert [where k = "- 56" and m = "7205759403792794" and q = "1 / 2 ^ 56"])
     (simp_all add: power_int_minus_divide)

lemma double_turnover_amphetamine: "double (18014398509481985 / 36028797018963968) = 1 / 2"
  by (rule double_cert [where k = "- 53" and m = "4503599627370496" and q = "1 / 2 ^ 53"])
     (simp_all add: power_int_minus_divide)

lemma double_turnover_smoke: "double (18014398509481985 / 144115188075855872) = 1 / 8"
  by (rule double_cert [where k = "- 55" and m = "4503599627370496" and q = "1 / 2 ^ 55"])
     (simp_all add: power_int_minus_divide)

lemma double_value_0_05: "double (3602879701896397 / 72057594037927936) = 3602879701896397 / 72057594037927936"
  by (rule double_cert [where k = "- 57" and m = "7205759403792794" and q = "1 / 2 ^ 57"])
     (simp_all add: power_int_minus_divide)

lemma double_idle_pool: "double (3606482581598293197 / 72057594037927936) = 3521955646092083 / 70368744177664"
  by (rule double_cert [where k = "- 47" and m = "7043911292184166" and q = "1 / 2 ^ 47"])
     (simp_all add: power_int_minus_divide)

lemma double_literal_50_05: "double (1001 / 20) = 3521955646092083 / 70368744177664"
  by (rule double_cert [where k = "- 47" and m = "7043911292184166" and q = "1 / 2 ^ 47"])
     (simp_all add: power_int_minus_divide)

lemma double_amphetamine_only_sum_1: "double (1 / 2) = 1 / 2"
  by (rule double_cert [where k = "- 53" and m = "4503599627370496" and q = "1 / 2 ^ 53"])
     (simp_all add: power_int_minus_divide)

lemma double_amphetamine_only_total: "double (39631676720860365 / 72057594037927936) = 2476979795053773 / 4503599627370496"
  by (rule double_cert [where k = "- 53" and m = "4953959590107546" and q = "1 / 2 ^ 53"])
     (simp_all add: power_int_minus_divide)

lemma double_literal_0_55: "double (11 / 20) = 2476979795053773 / 4503599627370496"
  by (rule double_cert [where k = "- 53" and m = "4953959590107546" and q = "1 / 2 ^ 53"])
     (simp_all add: power_int_minus_divide)

lemma double_amphetamine_only_diff: "double (- (16212958658533787 / 36028797018963968)) = - (4053239664633447 / 9007199254740992)"
  by (rule double_cert_tie [where k = "- 54" and n = "- 8106479329266894" and q = "1 / 2 ^ 54"])
     (simp_all add: power_int_minus_divide)

lemma double_literal_minus_0_45: "double (- (9 / 20)) = - (8106479329266893 / 18014398509481984)"
  by (rule double_cert [where k = "- 54" and m = "- 8106479329266893" and q = "1 / 2 ^ 54"])
     (simp_all add: power_int_minus_divide)

lemma double_sleep_work_amphetamine_sum_1: "double (- (1351079888211149 / 36028797018963968)) = - (1351079888211149 / 36028797018963968)"
  by (rule double_cert [where k = "- 57" and m = "- 5404319552844596" and q = "1 / 2 ^ 57"])
     (simp_all add: power_int_minus_divide)

lemma double_sleep_work_amphetamine_sum_2: "double (1351079888211149 / 36028797018963968) = 1351079888211149 / 36028797018963968"
  by (rule double_cert [where k = "- 57" and m = "5404319552844596" and q = "1 / 2 ^ 57"])
     (simp_all add: power_int_minus_divide)

lemma double_sleep_work_amphetamine_sum_3: "double (19365478397693133 / 36028797018963968) = 4841369599423283 / 9007199254740992"
  by (rule double_cert [where k = "- 53" and m = "4841369599423283" and q = "1 / 2 ^ 53"])
     (simp_all add: power_int_minus_divide)

lemma double_sleep_work_amphetamine_total: "double (42333836497282661 / 72057594037927936) = 5291729562160333 / 9007199254740992"
  by (rule double_cert [where k = "- 53" and m = "5291729562160333" and q = "1 / 2 ^ 53"])
     (simp_all add: power_int_minus_divide)

lemma double_sleep_amphetamine_work_sum_2: "double (16663318621270835 / 36028797018963968) = 4165829655317709 / 9007199254740992"
  by (rule double_cert_tie [where k = "- 54" and n = "8331659310635417" and q = "1 / 2 ^ 54"])
     (simp_all add: power_int_minus_divide)

lemma double_sleep_amphetamine_work_sum_3: "double (9682739198846567 / 18014398509481984) = 1210342399855821 / 2251799813685248"
  by (rule double_cert_tie [where k = "- 53" and n = "4841369599423283" and q = "1 / 2 ^ 53"])
     (simp_all add: power_int_minus_divide)

lemma double_sleep_amphetamine_work_total: "double (42333836497282669 / 72057594037927936) = 2645864781080167 / 4503599627370496"
  by (rule double_cert [where k = "- 53" and m = "5291729562160334" and q = "1 / 2 ^ 53"])
     (simp_all add: power_int_minus_divide)

lemmas double_values =
  double_literal_0_05 double_literal_0_1 double_literal_minus_0_75 double_literal_1_5
  double_literal_2_5 double_turnover_sleep double_turnover_work double_turnover_play
  double_turnover_amphetamine double_turnover_smoke double_value_0_05 double_idle_pool
  double_amphetamine_only_sum_1 double_amphetamine_only_total double_amphetamine_only_diff
  double_sleep_work_amphetamine_sum_1 double_sleep_work_amphetamine_sum_2 double_sleep_work_amphetamine_sum_3 double_sleep_work_amphetamine_total
  double_sleep_amphetamine_work_sum_2 double_sleep_amphetamine_work_sum_3 double_sleep_amphetamine_work_total

lemma double_zero: "double 0 = 0"
  by (simp add: double_def)

lemmas js_defs = js_add_def js_sub_def js_mul_def
  DopamineBaseTurnOverPerMinuteInPercent_def DopamineReserveRefillPerMinuteInPercent_def

lemma dopamineTurnover_values:
  "dopamineTurnover sleep t = - (1351079888211149 / 36028797018963968)"
  "dopamineTurnover work t = 1351079888211149 / 18014398509481984"
  "dopamineTurnover play t = 3602879701896397 / 36028797018963968"
  "dopamineTurnover amphetamine t = 1 / 2"
  "dopamineTurnover chocolate t = 1351079888211149 / 18014398509481984"
  "dopamineTurnover sex t = 3602879701896397 / 36028797018963968"
  "dopamineTurnover excercise t = 3602879701896397 / 36028797018963968"
  "dopamineTurnover smoke t = 1 / 8"
  by (simp_all add: dopamineTurnover_def js_defs double_values)

lemma totalDopamineUse_idle: "totalDopamineUse [] t = 3602879701896397 / 72057594037927936"
  by (simp add: totalDopamineUse_def js_defs double_values)

lemma totalDopamineUse_amphetamine:
  "totalDopamineUse [amphetamine] t = 2476979795053773 / 4503599627370496"
  by (simp add: totalDopamineUse_def dopamineTurnover_values js_defs double_values)


section \<open>What one tick does\<close>

lemma tick_pool:
  "pool (tick s) =
     max 0 (min 100 (js_add (pool s)
       (js_sub DopamineReserveRefillPerMinuteInPercent (totalDopamineUse (State.activities s) 0))))"
  by (simp add: tick_def Let_def)

lemma tick_activities: "State.activities (tick s) = State.activities s"
  by (simp add: tick_def Let_def)

lemma tick_timers: "timers (tick s) = timers s"
  by (simp add: tick_def Let_def)

lemma tick_data:
  "data (tick s) =
     (if 2880 \<le> length (data s) then tl (data s) else data s) @
       [\<lparr>minuteOfDay = length (data s),
         dopamineLevel = totalDopamineUse (State.activities s) 0,
         reservePercent = pool (tick s),
         activities = State.activities s\<rparr>]"
  by (cases "data s") (simp_all add: tick_def Let_def)

lemma tick2_returns:
  assumes "data s \<noteq> []"
  shows "tick2 s = Inr
    (s\<lparr>pool := max 0 (min 100 (js_add (pool s)
         (js_sub DopamineReserveRefillPerMinuteInPercent (totalDopamineUse (State.activities s) 0)))),
       data := (if 2880 \<le> length (data s) then tl (data s) else data s) @
         [\<lparr>minuteSinceStart = minuteSinceStart (last (data s)) + 1,
           daytime = minuteSinceStartToDaytime (minuteSinceStart (last (data s)) + 1),
           dopamineLevel = totalDopamineUse (State.activities s) 0,
           reservePercent = max 0 (min 100 (js_add (pool s)
             (js_sub DopamineReserveRefillPerMinuteInPercent (totalDopamineUse (State.activities s) 0)))),
           activities = State.activities s\<rparr>]\<rparr>)"
  using assms by (cases "data s") (simp_all add: tick2_def Let_def)

lemma tick2_throws: "data s = [] \<Longrightarrow> tick2 s = Inl TypeError"
  by (simp add: tick2_def Let_def)

lemma length_initialData: "length initialData = 2880"
  by (simp add: initialData_def MaxDataLength_def)

lemma length_initialData2: "length initialData2 = 2880"
  by (simp add: initialData2_def MaxDataLength_def)

lemma initialData_nonempty: "initialData \<noteq> []"
  using length_initialData by auto

lemma initialData2_nonempty: "initialData2 \<noteq> []"
  using length_initialData2 by auto

lemma tick_length:
  "length (data (tick s)) =
     (if 2880 \<le> length (data s) then length (data s) else length (data s) + 1)"
  by (auto simp: tick_data)

lemma tick2_length:
  assumes "tick2 s = Inr s'"
  shows "length (data s') =
     (if 2880 \<le> length (data s) then length (data s) else length (data s) + 1)"
proof -
  have "data s \<noteq> []" using assms tick2_throws [of s] by auto
  from tick2_returns [OF this] assms show ?thesis by auto
qed


section \<open>Clicks and timeouts leave the buffer alone\<close>

lemma onClick_data: "data (onClick s a) = data s"
  by (simp add: onClick_def Let_def)

lemma onTimeout_data: "data (onTimeout s timer) = data s"
  by (simp add: onTimeout_def)

lemma reachable_length: "reachable s \<Longrightarrow> length (data s) = 2880"
  by (induction rule: reachable.induct)
    (simp_all add: initialState_def length_initialData tick_length onClick_data onTimeout_data)

lemma reachable2_length: "reachable2 s \<Longrightarrow> length (data s) = 2880"
  by (induction rule: reachable2.induct)
    (simp_all add: initialState2_def length_initialData2 tick2_length onClick_data onTimeout_data)


section \<open>The reserve stays within bounds\<close>

text \<open>
  Claim C2. Whatever the reserve and the active list were, the reserve that a tick stores
  lies between 0 and 100, both included. In the later revision the tick returns whenever
  the buffer is not empty, and its reserve lies in the same range.
\<close>

theorem reserve_within_bounds:
  "0 \<le> pool (tick s) \<and> pool (tick s) \<le> 100 \<and>
   (data s2 \<noteq> [] \<longrightarrow> (\<exists>s'. tick2 s2 = Inr s' \<and> 0 \<le> pool s' \<and> pool s' \<le> 100))"
proof (intro conjI impI)
  show "0 \<le> pool (tick s)" by (simp add: tick_pool)
  show "pool (tick s) \<le> 100" by (simp add: tick_pool)
next
  assume "data s2 \<noteq> []"
  from tick2_returns [OF this]
  show "\<exists>s'. tick2 s2 = Inr s' \<and> 0 \<le> pool s' \<and> pool s' \<le> 100" by simp
qed

theorem reserve_within_bounds_witness:
  "0 \<le> pool (tick initialState) \<and> pool (tick initialState) \<le> 100 \<and>
   data initialState2 \<noteq> [] \<and>
   (\<exists>s'. tick2 initialState2 = Inr s' \<and> 0 \<le> pool s' \<and> pool s' \<le> 100)"
proof -
  have "data initialState2 \<noteq> []"
    by (simp add: initialState2_def initialData2_nonempty)
  then show ?thesis
    using reserve_within_bounds [of initialState initialState2] by blast
qed


section \<open>The rolling buffer\<close>

text \<open>
  Claim C3. A tick on a buffer of at most 2880 samples leaves at most 2880. Below the
  capacity the new buffer is the old one followed by the new sample. At the capacity the
  length stays 2880, and the old buffer followed by the new sample is the evicted first
  sample followed by the new buffer: exactly the oldest sample goes, the others keep their
  order. Both revisions behave so; the later one returns whenever the buffer is not empty.
\<close>

theorem buffer_append_fifo:
  "(length (data s) \<le> 2880 \<longrightarrow>
      length (data (tick s)) \<le> 2880 \<and>
      (length (data s) < 2880 \<longrightarrow> data (tick s) = data s @ [last (data (tick s))]) \<and>
      (length (data s) = 2880 \<longrightarrow>
         length (data (tick s)) = 2880 \<and>
         hd (data s) # data (tick s) = data s @ [last (data (tick s))])) \<and>
   (data s2 \<noteq> [] \<and> length (data s2) \<le> 2880 \<longrightarrow>
      (\<exists>s'. tick2 s2 = Inr s' \<and>
         length (data s') \<le> 2880 \<and>
         (length (data s2) < 2880 \<longrightarrow> data s' = data s2 @ [last (data s')]) \<and>
         (length (data s2) = 2880 \<longrightarrow>
            length (data s') = 2880 \<and>
            hd (data s2) # data s' = data s2 @ [last (data s')])))"
proof (intro conjI impI)
  assume "length (data s) \<le> 2880"
  then show "length (data (tick s)) \<le> 2880" by (simp add: tick_length)
next
  assume "length (data s) < 2880"
  then show "data (tick s) = data s @ [last (data (tick s))]" by (simp add: tick_data)
next
  assume "length (data s) = 2880"
  then show "length (data (tick s)) = 2880" by (simp add: tick_length)
next
  assume "length (data s) = 2880"
  then show "hd (data s) # data (tick s) = data s @ [last (data (tick s))]"
    by (cases "data s") (simp_all add: tick_data)
next
  assume a: "data s2 \<noteq> [] \<and> length (data s2) \<le> 2880"
  then have ne: "data s2 \<noteq> []" by simp
  from tick2_returns [OF ne] a
  show "\<exists>s'. tick2 s2 = Inr s' \<and>
         length (data s') \<le> 2880 \<and>
         (length (data s2) < 2880 \<longrightarrow> data s' = data s2 @ [last (data s')]) \<and>
         (length (data s2) = 2880 \<longrightarrow>
            length (data s') = 2880 \<and>
            hd (data s2) # data s' = data s2 @ [last (data s')])"
    by (cases "data s2") auto
qed

theorem buffer_append_fifo_witness:
  "length (data initialState) \<le> 2880 \<and> length (data initialState) = 2880 \<and>
   length (data (tick initialState)) = 2880 \<and>
   hd (data initialState) # data (tick initialState) =
     data initialState @ [last (data (tick initialState))] \<and>
   data initialState2 \<noteq> [] \<and> length (data initialState2) = 2880 \<and>
   (\<exists>s'. tick2 initialState2 = Inr s' \<and> length (data s') = 2880 \<and>
      hd (data initialState2) # data s' = data initialState2 @ [last (data s')])"
proof -
  have 1: "length (data initialState) = 2880"
    by (simp add: initialState_def length_initialData)
  have 2: "length (data initialState2) = 2880"
    by (simp add: initialState2_def length_initialData2)
  have 3: "data initialState2 \<noteq> []"
    by (simp add: initialState2_def initialData2_nonempty)
  show ?thesis
    using 1 2 3 buffer_append_fifo [of initialState initialState2] by auto
qed

text \<open>
  Claim C9. The buffer starts with exactly 2880 samples, each with reserve 50, the
  baseline turnover and no activity. In every reachable state of either revision it
  holds exactly 2880 samples, and the next tick returns a buffer of 2880 samples again.
\<close>

theorem buffer_length_invariant:
  "length initialData = 2880 \<and>
   (\<forall>p \<in> set initialData.
      DataPoint.reservePercent p = 50 \<and>
      DataPoint.dopamineLevel p = double (1 / 20) \<and>
      DataPoint.activities p = []) \<and>
   length initialData2 = 2880 \<and>
   (\<forall>p \<in> set initialData2.
      DataPoint2.reservePercent p = 50 \<and>
      DataPoint2.dopamineLevel p = double (1 / 20) \<and>
      DataPoint2.activities p = []) \<and>
   (reachable s \<longrightarrow> length (data s) = 2880 \<and> length (data (tick s)) = 2880) \<and>
   (reachable2 s2 \<longrightarrow>
      length (data s2) = 2880 \<and> (\<exists>s'. tick2 s2 = Inr s' \<and> length (data s') = 2880))"
proof (intro conjI ballI impI)
  fix p assume "p \<in> set initialData"
  then show "DataPoint.reservePercent p = 50" "DataPoint.dopamineLevel p = double (1 / 20)"
    "DataPoint.activities p = []"
    by (auto simp: initialData_def DopamineBaseTurnOverPerMinuteInPercent_def)
next
  fix p assume "p \<in> set initialData2"
  then show "DataPoint2.reservePercent p = 50" "DataPoint2.dopamineLevel p = double (1 / 20)"
    "DataPoint2.activities p = []"
    by (auto simp: initialData2_def DopamineBaseTurnOverPerMinuteInPercent_def)
next
  assume "reachable s"
  then show "length (data s) = 2880" by (rule reachable_length)
  then show "length (data (tick s)) = 2880" by (simp add: tick_length)
next
  assume "reachable2 s2"
  then show l: "length (data s2) = 2880" by (rule reachable2_length)
  then have "data s2 \<noteq> []" by auto
  from tick2_returns [OF this] obtain s' where r: "tick2 s2 = Inr s'" by blast
  from tick2_length [OF r] l have "length (data s') = 2880" by simp
  with r show "\<exists>s'. tick2 s2 = Inr s' \<and> length (data s') = 2880" by blast
qed (simp_all add: length_initialData length_initialData2)

theorem buffer_length_invariant_witness:
  "reachable (tick (onClick initialState work)) \<and>
   length (data (tick (onClick initialState work))) = 2880 \<and>
   reachable2 (onClick initialState2 work) \<and>
   length (data (onClick initialState2 work)) = 2880 \<and>
   hd initialData \<in> set initialData \<and> DataPoint.reservePercent (hd initialData) = 50 \<and>
   hd initialData2 \<in> set initialData2 \<and> DataPoint2.reservePercent (hd initialData2) = 50 \<and>
   (\<exists>s'. tick2 (onClick initialState2 work) = Inr s' \<and> length (data s') = 2880)"
proof -
  have 1: "reachable (tick (onClick initialState work))"
    by (rule reachable.tick, rule reachable.click, rule reachable.init)
  have 2: "reachable2 (onClick initialState2 work)"
    by (rule reachable2.click2, rule reachable2.init2)
  have 3: "hd initialData \<in> set initialData" "hd initialData2 \<in> set initialData2"
    using initialData_nonempty initialData2_nonempty by simp_all
  note inv =
    buffer_length_invariant [of "tick (onClick initialState work)" "onClick initialState2 work"]
  from inv 1 have 4: "length (data (tick (onClick initialState work))) = 2880" by (elim conjE) simp
  from inv 2 have 5: "length (data (onClick initialState2 work)) = 2880" by (elim conjE) simp
  from inv 2 have 8: "\<exists>s'. tick2 (onClick initialState2 work) = Inr s' \<and> length (data s') = 2880"
    by (elim conjE) simp
  from inv 3 have 6: "DataPoint.reservePercent (hd initialData) = 50" by (elim conjE) simp
  from inv 3 have 7: "DataPoint2.reservePercent (hd initialData2) = 50" by (elim conjE) simp
  from 1 2 3 4 5 6 7 8 show ?thesis by (intro conjI)
qed


section \<open>What a tick leaves unchanged\<close>

text \<open>
  Claim C10. A tick never changes the list of active activities: it writes the reserve
  and the buffer, and nothing else. In the later revision the same holds of the state that
  the tick returns.
\<close>

theorem tick_keeps_activities:
  "State.activities (tick s) = State.activities s \<and>
   tick s = s\<lparr>pool := pool (tick s), data := data (tick s)\<rparr> \<and>
   (data s2 \<noteq> [] \<longrightarrow>
      (\<exists>s'. tick2 s2 = Inr s' \<and> State.activities s' = State.activities s2 \<and>
         s' = s2\<lparr>pool := pool s', data := data s'\<rparr>))"
proof (intro conjI impI)
  show "State.activities (tick s) = State.activities s" by (rule tick_activities)
  show "tick s = s\<lparr>pool := pool (tick s), data := data (tick s)\<rparr>"
    by (simp add: tick_def Let_def)
next
  assume "data s2 \<noteq> []"
  from tick2_returns [OF this]
  show "\<exists>s'. tick2 s2 = Inr s' \<and> State.activities s' = State.activities s2 \<and>
         s' = s2\<lparr>pool := pool s', data := data s'\<rparr>"
    by simp
qed

theorem tick_keeps_activities_witness:
  "State.activities (tick (onClick initialState work)) = [work] \<and>
   data initialState2 \<noteq> [] \<and>
   (\<exists>s'. tick2 initialState2 = Inr s' \<and> State.activities s' = State.activities initialState2)"
proof -
  have 1: "State.activities (onClick initialState work) = [work]"
    by (simp add: onClick_def initialState_def onActivityToggle_def)
  have 2: "data initialState2 \<noteq> []"
    by (simp add: initialState2_def initialData2_nonempty)
  show ?thesis
    using 1 2 tick_keeps_activities [of "onClick initialState work" initialState2] by auto
qed


section \<open>The scenarios\<close>

text \<open>
  Claim C6. With reserve 50 and no activity, one tick computes the consumption 0.05 and
  the difference 0.05 and stores the reserve 50.05: each is exactly the double that the
  decimal numeral denotes, no rounding error is left over. The sample that the tick
  appends records the same consumption and reserve.
\<close>

theorem first_tick_scenario:
  "totalDopamineUse [] 0 = double (1 / 20) \<and>
   js_sub DopamineReserveRefillPerMinuteInPercent (totalDopamineUse [] 0) = double (1 / 20) \<and>
   pool (tick (s\<lparr>pool := 50, activities := []\<rparr>)) = double (1001 / 20) \<and>
   DataPoint.dopamineLevel (last (data (tick (s\<lparr>pool := 50, activities := []\<rparr>)))) =
     double (1 / 20) \<and>
   DataPoint.reservePercent (last (data (tick (s\<lparr>pool := 50, activities := []\<rparr>)))) =
     double (1001 / 20)"
  by (simp add: tick_data tick_pool totalDopamineUse_idle js_defs double_values
      double_literal_50_05)



section \<open>The sequence index\<close>

lemma minuteOfDay_initialData: "i < 2880 \<Longrightarrow> minuteOfDay (initialData ! i) = i"
  by (simp add: initialData_def MaxDataLength_def)

lemma minuteSinceStart_initialData2:
  "map minuteSinceStart initialData2 = [0..<0 + length initialData2]"
  by (simp add: initialData2_def comp_def)

lemma tick_full:
  assumes "length (data s) = 2880"
  shows "data (tick s) = tl (data s) @ [last (data (tick s))]"
    and "minuteOfDay (last (data (tick s))) = 2880"
    and "length (data (tick s)) = 2880"
  using assms by (simp_all add: tick_data)

text \<open>
  Claim C4, in \<^verbatim>\<open>Model.tsx\<close>. The tick stamps the new sample with \<^verbatim>\<open>data.length\<close>, and a
  full buffer always has length 2880. After the first tick the buffer is full, its oldest
  sample has index 1 and its newest 2880; the second tick keeps that newest sample and
  appends another one with index 2880, not 2881: the index repeats instead of increasing.
\<close>

theorem sequence_index_repeats:
  "length (data (tick initialState)) = 2880 \<and>
   minuteOfDay (hd (data (tick initialState))) = 1 \<and>
   minuteOfDay (last (data (tick initialState))) = 2880 \<and>
   length (data (tick (tick initialState))) = 2880 \<and>
   last (butlast (data (tick (tick initialState)))) = last (data (tick initialState)) \<and>
   minuteOfDay (last (data (tick (tick initialState)))) = 2880"
proof -
  have l0: "length (data initialState) = 2880"
    by (simp add: initialState_def length_initialData)
  note t1 = tick_full [OF l0]
  note t2 = tick_full [OF t1(3)]
  have "tl (data initialState) \<noteq> []" using l0 by (cases "data initialState") auto
  then have "hd (data (tick initialState)) = hd (tl (data initialState))"
    by (subst t1(1)) simp
  also have "\<dots> = data initialState ! 1"
  proof -
    have "hd (tl (data initialState)) = tl (data initialState) ! 0"
      using \<open>tl (data initialState) \<noteq> []\<close> by (rule hd_conv_nth)
    also have "\<dots> = data initialState ! Suc 0"
      using l0 by (intro nth_tl) simp
    finally show ?thesis by simp
  qed
  finally have h: "minuteOfDay (hd (data (tick initialState))) = 1"
    by (simp add: initialState_def minuteOfDay_initialData)
  have ne: "tl (data (tick initialState)) \<noteq> []"
    using t1(3) by (cases "data (tick initialState)") auto
  have "butlast (data (tick (tick initialState))) = tl (data (tick initialState))"
    by (subst t2(1)) simp
  then have b: "last (butlast (data (tick (tick initialState)))) = last (data (tick initialState))"
    using ne by (simp add: last_tl)
  from t1(2,3) t2(2,3) h b show ?thesis by (intro conjI)
qed

lemma upt_tl_snoc: "0 < n \<Longrightarrow> tl [k..<k + n] @ [k + n] = [Suc k..<Suc k + n]"
proof -
  assume "0 < n"
  then have "[Suc k..<Suc (k + n)] = [Suc k..<k + n] @ [k + n]"
    by (intro upt_Suc_append) simp
  then show ?thesis by (simp add: tl_upt)
qed

lemma tick2_consecutive:
  assumes m: "map minuteSinceStart (data s) = [k..<k + length (data s)]"
    and len: "length (data s) = 2880"
    and r: "tick2 s = Inr s'"
  shows "map minuteSinceStart (data s') = [Suc k..<Suc k + length (data s')]"
    and "minuteSinceStart (last (data s')) = k + length (data s)"
proof -
  define n where "n = length (data s)"
  have npos: "0 < n" using len by (simp add: n_def)
  have ne: "data s \<noteq> []" using len by auto
  have "minuteSinceStart (last (data s)) = last (map minuteSinceStart (data s))"
    using ne by (simp add: last_map)
  also have "\<dots> = k + n - 1" using npos by (simp add: m n_def [symmetric])
  finally have lst: "minuteSinceStart (last (data s)) + 1 = k + n" using npos by simp
  have tl: "tl (map minuteSinceStart (data s)) @ [k + n] = [Suc k..<Suc k + n]"
    using upt_tl_snoc [OF npos, of k] by (simp only: m n_def [symmetric])
  have d: "data s' = tl (data s) @ [\<lparr>minuteSinceStart = minuteSinceStart (last (data s)) + 1,
           daytime = minuteSinceStartToDaytime (minuteSinceStart (last (data s)) + 1),
           dopamineLevel = totalDopamineUse (State.activities s) 0,
           reservePercent = max 0 (min 100 (js_add (pool s)
             (js_sub DopamineReserveRefillPerMinuteInPercent (totalDopamineUse (State.activities s) 0)))),
           activities = State.activities s\<rparr>]"
    using tick2_returns [OF ne] r len by auto
  have l': "length (data s') = n" using ne by (simp add: d n_def)
  have "map minuteSinceStart (data s') = tl (map minuteSinceStart (data s)) @ [k + n]"
    by (simp only: d map_append map_tl list.map DataPoint2.simps lst)
  then show "map minuteSinceStart (data s') = [Suc k..<Suc k + length (data s')]"
    by (simp only: tl l')
  show "minuteSinceStart (last (data s')) = k + length (data s)"
    by (simp only: d last_snoc DataPoint2.simps lst n_def)
qed

lemma reachable2_consecutive:
  "reachable2 s \<Longrightarrow> \<exists>k. map minuteSinceStart (data s) = [k..<k + length (data s)]"
proof (induction rule: reachable2.induct)
  case init2
  have "map minuteSinceStart (data initialState2) = [0..<0 + length (data initialState2)]"
    using minuteSinceStart_initialData2 by (simp add: initialState2_def)
  then show ?case by (rule exI)
next
  case (tick2 s s')
  then obtain k where "map minuteSinceStart (data s) = [k..<k + length (data s)]" by blast
  from tick2_consecutive(1) [OF this reachable2_length [OF tick2.hyps(1)] tick2.hyps(2)]
  show ?case by (rule exI)
next
  case (click2 s activity)
  then show ?case by (simp only: onClick_data)
next
  case (timeout2 s timer)
  then show ?case by (simp only: onTimeout_data)
qed

text \<open>
  The later revision stamps the new sample with the last index plus one. There, in every
  reachable state, the tick returns, drops the oldest sample, and the newest index is the
  evicted one plus 2880; the indices in the buffer are strictly increasing.
\<close>

theorem sequence_index_later_revision:
  assumes "reachable2 s"
  shows "\<exists>s'. tick2 s = Inr s' \<and> length (data s') = 2880 \<and>
    hd (data s) # data s' = data s @ [last (data s')] \<and>
    minuteSinceStart (last (data s')) = minuteSinceStart (hd (data s)) + 2880 \<and>
    sorted_wrt (<) (map minuteSinceStart (data s'))"
proof -
  from reachable2_consecutive [OF assms]
  obtain k where k: "map minuteSinceStart (data s) = [k..<k + length (data s)]" by blast
  have len: "length (data s) = 2880" using assms by (rule reachable2_length)
  then have ne: "data s \<noteq> []" by auto
  have "minuteSinceStart (hd (data s)) = hd (map minuteSinceStart (data s))"
    using ne by (simp add: hd_map)
  also have "\<dots> = k" using ne by (simp only: k) simp
  finally have hd: "minuteSinceStart (hd (data s)) = k" .
  from tick2_returns [OF ne] obtain s' where r: "tick2 s = Inr s'" by blast
  note c = tick2_consecutive [OF k len r]
  have l': "length (data s') = 2880" using tick2_length [OF r] len by simp
  have fifo: "hd (data s) # data s' = data s @ [last (data s')]"
    using tick2_returns [OF ne] r len by (cases "data s") auto
  have srt: "sorted_wrt (<) (map minuteSinceStart (data s'))"
    by (simp only: c(1) sorted_wrt_upt)
  have "minuteSinceStart (last (data s')) = minuteSinceStart (hd (data s)) + 2880"
    by (simp only: c(2) hd len)
  with r l' fifo srt show ?thesis by blast
qed


section \<open>Looking up an activity\<close>

lemma getProperty_key: "getProperty (key a) = Definition (ACTIVITIES a)"
  by (cases a) (simp_all add: getProperty_def ACTIVITIES_object_def Object_keys_ACTIVITIES_def)

lemma Object_keys_complete: "set Object_keys_ACTIVITIES = UNIV"
proof -
  have "a \<in> set Object_keys_ACTIVITIES" for a
    by (cases a) (simp_all add: Object_keys_ACTIVITIES_def)
  then show ?thesis by auto
qed

lemma getProperty_other:
  assumes "name \<notin> set (map key Object_keys_ACTIVITIES)"
  shows "getProperty name = (if name \<in> set Object_prototype_names then Inherited else Undefined)"
proof -
  have "map_of ACTIVITIES_object name = None"
    using assms by (simp add: map_of_eq_None_iff ACTIVITIES_object_def image_image)
  then show ?thesis by (simp add: getProperty_def)
qed

text \<open>
  Claim C8 as stated fails: a name outside the catalog does not make the lookup fail
  with an error of its own. \<^verbatim>\<open>toString\<close> is no catalog key, yet the lookup returns the
  inherited member and the turnover is NaN, with nothing thrown; \<^verbatim>\<open>foo\<close> yields
  \<^verbatim>\<open>undefined\<close>, and what is thrown is the \<^verbatim>\<open>TypeError\<close> of the property read.
\<close>

theorem unknown_activity_counterexample:
  "''toString'' \<notin> set (map key Object_keys_ACTIVITIES) \<and>
   getProperty ''toString'' = Inherited \<and>
   dopamineTurnover_untyped ''toString'' 0 = Inr NaN \<and>
   ''foo'' \<notin> set (map key Object_keys_ACTIVITIES) \<and>
   getProperty ''foo'' = Undefined \<and>
   dopamineTurnover_untyped ''foo'' 0 = Inl TypeError"
proof -
  have 1: "''toString'' \<notin> set (map key Object_keys_ACTIVITIES)"
    by (simp add: Object_keys_ACTIVITIES_def)
  have 2: "''foo'' \<notin> set (map key Object_keys_ACTIVITIES)"
    by (simp add: Object_keys_ACTIVITIES_def)
  have 3: "getProperty ''toString'' = Inherited"
    by (simp add: getProperty_other [OF 1] Object_prototype_names_def)
  have 4: "getProperty ''foo'' = Undefined"
    by (simp add: getProperty_other [OF 2] Object_prototype_names_def)
  from 1 2 3 4 show ?thesis by (simp add: dopamineTurnover_untyped_def)
qed

text \<open>
  Claim C8, amended. For every activity, that is every key of the catalog, the lookup
  returns that key's definition, and the run-time turnover is the typed one. The type
  \<open>Activity\<close> has no other value. For a name outside the catalog the lookup yields
  \<^verbatim>\<open>undefined\<close> or an inherited member, never a definition, and the turnover either throws
  \<^verbatim>\<open>TypeError\<close> or is NaN.
\<close>

theorem catalog_lookup:
  "getProperty (key a) = Definition (ACTIVITIES a) \<and>
   dopamineTurnover_untyped (key a) t = Inr (Number (dopamineTurnover a t)) \<and>
   a \<in> set Object_keys_ACTIVITIES \<and>
   (name \<notin> set (map key Object_keys_ACTIVITIES) \<longrightarrow>
      (getProperty name = Undefined \<or> getProperty name = Inherited) \<and>
      (dopamineTurnover_untyped name t = Inl TypeError \<or>
       dopamineTurnover_untyped name t = Inr NaN))"
proof (intro conjI impI)
  show "getProperty (key a) = Definition (ACTIVITIES a)" by (rule getProperty_key)
  show "dopamineTurnover_untyped (key a) t = Inr (Number (dopamineTurnover a t))"
    by (simp add: dopamineTurnover_untyped_def getProperty_key dopamineTurnover_def)
  show "a \<in> set Object_keys_ACTIVITIES" by (simp add: Object_keys_complete)
next
  assume n: "name \<notin> set (map key Object_keys_ACTIVITIES)"
  show "getProperty name = Undefined \<or> getProperty name = Inherited"
    by (simp add: getProperty_other [OF n])
  show "dopamineTurnover_untyped name t = Inl TypeError \<or>
       dopamineTurnover_untyped name t = Inr NaN"
    by (simp add: dopamineTurnover_untyped_def getProperty_other [OF n])
qed

theorem catalog_lookup_witness:
  "getProperty (key smoke) = Definition (ACTIVITIES smoke) \<and>
   ''foo'' \<notin> set (map key Object_keys_ACTIVITIES) \<and>
   (getProperty ''foo'' = Undefined \<or> getProperty ''foo'' = Inherited)"
proof -
  have "''foo'' \<notin> set (map key Object_keys_ACTIVITIES)"
    by (simp add: Object_keys_ACTIVITIES_def)
  then show ?thesis using catalog_lookup [of smoke 0 "''foo''"] by blast
qed


section \<open>Turning on what is already on\<close>

lemma onClick_distinct:
  assumes "distinct (State.activities s)" "\<forall>t \<in> set (timers s). distinct (snd t)"
  shows "distinct (State.activities (onClick s a)) \<and>
    (\<forall>t \<in> set (timers (onClick s a)). distinct (snd t))"
  using assms by (auto simp: onClick_def Let_def onActivityToggle_def)

lemma onTimeout_distinct:
  assumes "\<forall>t \<in> set (timers s). distinct (snd t)" "timer \<in> set (timers s)"
  shows "distinct (State.activities (onTimeout s timer)) \<and>
    (\<forall>t \<in> set (timers (onTimeout s timer)). distinct (snd t))"
proof -
  have "set (remove1 timer (timers s)) \<subseteq> set (timers s)" by (rule set_remove1_subset)
  then show ?thesis using assms by (auto simp: onTimeout_def onActivityToggle_def)
qed

lemma reachable_distinct:
  "reachable s \<Longrightarrow>
     distinct (State.activities s) \<and> (\<forall>t \<in> set (timers s). distinct (snd t))"
proof (induction rule: reachable.induct)
  case init
  show ?case by (simp add: initialState_def)
next
  case (tick s)
  then show ?case by (simp add: tick_activities tick_timers)
next
  case (click s activity)
  then show ?case using onClick_distinct [of s activity] by blast
next
  case (timeout s timer)
  then show ?case using onTimeout_distinct [of s timer] by blast
qed

lemma tick2_activities_timers:
  assumes "tick2 s = Inr s'"
  shows "State.activities s' = State.activities s" "timers s' = timers s"
proof -
  have "data s \<noteq> []" using assms tick2_throws [of s] by auto
  from tick2_returns [OF this] assms
  show "State.activities s' = State.activities s" "timers s' = timers s" by auto
qed

lemma reachable2_distinct:
  "reachable2 s \<Longrightarrow>
     distinct (State.activities s) \<and> (\<forall>t \<in> set (timers s). distinct (snd t))"
proof (induction rule: reachable2.induct)
  case init2
  show ?case by (simp add: initialState2_def)
next
  case (tick2 s s')
  then show ?case by (simp add: tick2_activities_timers)
next
  case (click2 s activity)
  then show ?case using onClick_distinct [of s activity] by blast
next
  case (timeout2 s timer)
  then show ?case using onTimeout_distinct [of s timer] by blast
qed

text \<open>
  Claim C5 as stated fails: turning on an activity that is already in the list appends it
  once more, so the list changes.
\<close>

theorem toggle_on_counterexample:
  "work \<in> set [work] \<and> onActivityToggle [work] work True = [work, work] \<and>
   onActivityToggle [work] work True \<noteq> [work]"
  by (simp add: onActivityToggle_def)

text \<open>
  Claim C5, amended. Turning on an activity that is already in the list appends one more
  occurrence of it: the set of active ids stays the same, the list does not. The switch
  never makes that call: a click on a switch whose activity is in the list turns it off
  (or does nothing while the button is disabled), and so the active list of every
  reachable state, in either revision, is free of duplicates.
\<close>

theorem toggle_on_when_present:
  "(activity \<in> set acts \<longrightarrow>
      onActivityToggle acts activity True = acts @ [activity] \<and>
      set (onActivityToggle acts activity True) = set acts) \<and>
   (activity \<in> set (State.activities s) \<longrightarrow>
      State.activities (onClick s activity) =
        (if pool s < 1 then State.activities s
         else onActivityToggle (State.activities s) activity False)) \<and>
   (reachable s1 \<longrightarrow> distinct (State.activities s1)) \<and>
   (reachable2 s2 \<longrightarrow> distinct (State.activities s2))"
proof (intro conjI impI)
  assume "activity \<in> set acts"
  then show "set (onActivityToggle acts activity True) = set acts"
    by (auto simp: onActivityToggle_def)
next
  assume "activity \<in> set (State.activities s)"
  then show "State.activities (onClick s activity) =
        (if pool s < 1 then State.activities s
         else onActivityToggle (State.activities s) activity False)"
    by (simp add: onClick_def Let_def)
next
  assume "reachable s1"
  then show "distinct (State.activities s1)" using reachable_distinct by blast
next
  assume "reachable2 s2"
  then show "distinct (State.activities s2)" using reachable2_distinct by blast
qed (simp add: onActivityToggle_def)

theorem toggle_on_when_present_witness:
  "work \<in> set [work] \<and> onActivityToggle [work] work True = [work] @ [work] \<and>
   set (onActivityToggle [work] work True) = set [work] \<and>
   work \<in> set (State.activities (onClick initialState work)) \<and>
   State.activities (onClick (onClick initialState work) work) = [] \<and>
   reachable (onClick initialState work) \<and>
   distinct (State.activities (onClick initialState work)) \<and>
   reachable2 (onClick initialState2 work) \<and>
   distinct (State.activities (onClick initialState2 work))"
proof -
  have a: "State.activities (onClick initialState work) = [work]"
    by (simp add: onClick_def initialState_def onActivityToggle_def)
  have p: "\<not> pool (onClick initialState work) < 1"
    by (simp add: onClick_def initialState_def)
  have r1: "reachable (onClick initialState work)"
    by (rule reachable.click, rule reachable.init)
  have r2: "reachable2 (onClick initialState2 work)"
    by (rule reachable2.click2, rule reachable2.init2)
  note t = toggle_on_when_present [of work "[work]" "onClick initialState work"
      "onClick initialState work" "onClick initialState2 work"]
  from t have 1: "onActivityToggle [work] work True = [work] @ [work]"
    "set (onActivityToggle [work] work True) = set [work]" by simp_all
  from t a p have 2: "State.activities (onClick (onClick initialState work) work) = []"
    by (simp add: onActivityToggle_def)
  from t r1 have 3: "distinct (State.activities (onClick initialState work))" by blast
  from t r2 have 4: "distinct (State.activities (onClick initialState2 work))" by blast
  from 1 2 3 4 a r1 r2 show ?thesis by simp
qed


section \<open>Ticks under amphetamine\<close>

lemma least_quantum_small: "(2::rat) powi (- 1075) \<le> 1 / 2 ^ 57"
proof -
  have "(2::rat) powi (- 1075) \<le> 2 powi (- 57)"
    by (rule power_int_increasing) simp_all
  also have "\<dots> = 1 / 2 ^ 57" by (simp add: power_int_minus_divide)
  finally show ?thesis .
qed

lemma double_near:
  assumes "\<bar>x\<bar> \<le> 128"
  shows "\<bar>double x - x\<bar> \<le> 1 / 2 ^ 46"
proof -
  have "\<bar>x\<bar> / 2 ^ 53 \<le> 128 / 2 ^ 53" using assms by (simp add: divide_right_mono)
  then have a: "\<bar>x\<bar> / 2 ^ 53 \<le> 1 / 2 ^ 46" by simp
  have b: "(2::rat) powi (- 1075) \<le> 1 / 2 ^ 46"
    using least_quantum_small by simp
  from double_error [of x] a b show ?thesis by linarith
qed

lemma amphetamine_diff:
  "js_sub DopamineReserveRefillPerMinuteInPercent (totalDopamineUse [amphetamine] t) =
     - (4053239664633447 / 9007199254740992)"
  by (simp add: totalDopamineUse_amphetamine js_defs double_values)

lemma amphetamine_tick:
  assumes a: "State.activities s = [amphetamine]" and p: "0 \<le> pool s" "pool s \<le> 100"
  shows "pool (tick s) \<le> pool s"
proof -
  define d :: rat where "d = - (4053239664633447 / 9007199254740992)"
  define x where "x = pool s + d"
  have dlt: "d < - (1 / 4)" "- 1 \<le> d" by (simp_all add: d_def)
  have "\<bar>x\<bar> \<le> 128" using p dlt by (simp add: x_def abs_le_iff)
  from double_near [OF this] have "double x \<le> x + 1 / 2 ^ 46" by linarith
  moreover have "(1::rat) / 2 ^ 46 \<le> 1 / 4" by simp
  ultimately have le: "double x \<le> pool s" using dlt unfolding x_def by linarith
  have "pool (tick s) = max 0 (min 100 (double x))"
    by (simp add: tick_pool a amphetamine_diff js_add_def x_def d_def)
  then show ?thesis using le p by simp
qed

lemma ticks_activities: "State.activities ((tick ^^ n) s) = State.activities s"
  by (induction n) (simp_all add: tick_activities)

lemma ticks_pool_bounds:
  "0 \<le> pool s \<Longrightarrow> pool s \<le> 100 \<Longrightarrow> 0 \<le> pool ((tick ^^ n) s) \<and> pool ((tick ^^ n) s) \<le> 100"
  by (cases n) (simp_all add: tick_pool)

text \<open>
  Claim C7 as stated fails in its second number: with amphetamine active the difference
  that the tick computes is \<open>- 4053239664633447 / 2 ^ 53\<close>, which prints as
  \<^verbatim>\<open>-0.45000000000000007\<close>, and not the double that \<^verbatim>\<open>-0.45\<close> denotes.
\<close>

theorem amphetamine_counterexample:
  "js_sub DopamineReserveRefillPerMinuteInPercent (totalDopamineUse [amphetamine] 0) =
     - (4053239664633447 / 9007199254740992) \<and>
   double (- (9 / 20)) = - (8106479329266893 / 18014398509481984) \<and>
   js_sub DopamineReserveRefillPerMinuteInPercent (totalDopamineUse [amphetamine] 0) \<noteq>
     double (- (9 / 20))"
  by (simp add: amphetamine_diff double_literal_minus_0_45)

text \<open>
  Claim C7, amended. With amphetamine as the only active activity the consumption is the
  double that \<^verbatim>\<open>0.55\<close> denotes; the difference is \<open>- 4053239664633447 / 2 ^ 53\<close>, within
  \<open>2 ^ - 53\<close> of \<open>- 0.45\<close>; and from any reserve between 0 and 100, under repeated
  ticks the reserve never increases and never goes below 0.
\<close>

theorem amphetamine_scenario:
  "totalDopamineUse [amphetamine] 0 = double (11 / 20) \<and>
   js_sub DopamineReserveRefillPerMinuteInPercent (totalDopamineUse [amphetamine] 0) =
     - (4053239664633447 / 9007199254740992) \<and>
   \<bar>js_sub DopamineReserveRefillPerMinuteInPercent (totalDopamineUse [amphetamine] 0)
      - (- (9 / 20))\<bar> \<le> 1 / 2 ^ 53 \<and>
   (State.activities s = [amphetamine] \<and> 0 \<le> pool s \<and> pool s \<le> 100 \<longrightarrow>
      (\<forall>n. 0 \<le> pool ((tick ^^ n) s) \<and> pool ((tick ^^ Suc n) s) \<le> pool ((tick ^^ n) s)))"
proof (intro conjI impI allI)
  show "totalDopamineUse [amphetamine] 0 = double (11 / 20)"
    by (simp add: totalDopamineUse_amphetamine double_literal_0_55)
  show "js_sub DopamineReserveRefillPerMinuteInPercent (totalDopamineUse [amphetamine] 0) =
     - (4053239664633447 / 9007199254740992)"
    by (rule amphetamine_diff)
  show "\<bar>js_sub DopamineReserveRefillPerMinuteInPercent (totalDopamineUse [amphetamine] 0)
      - (- (9 / 20))\<bar> \<le> 1 / 2 ^ 53"
    by (simp add: amphetamine_diff)
next
  fix n
  assume h: "State.activities s = [amphetamine] \<and> 0 \<le> pool s \<and> pool s \<le> 100"
  then have b: "0 \<le> pool ((tick ^^ n) s)" "pool ((tick ^^ n) s) \<le> 100"
    using ticks_pool_bounds [of s n] by simp_all
  show "0 \<le> pool ((tick ^^ n) s)" by (rule b(1))
  have "State.activities ((tick ^^ n) s) = [amphetamine]"
    using h by (simp add: ticks_activities)
  from amphetamine_tick [OF this b]
  show "pool ((tick ^^ Suc n) s) \<le> pool ((tick ^^ n) s)" by simp
qed

theorem amphetamine_scenario_witness:
  "State.activities (onClick initialState amphetamine) = [amphetamine] \<and>
   0 \<le> pool (onClick initialState amphetamine) \<and>
   pool (onClick initialState amphetamine) \<le> 100 \<and>
   0 \<le> pool ((tick ^^ 3) (onClick initialState amphetamine)) \<and>
   pool ((tick ^^ Suc 3) (onClick initialState amphetamine)) \<le>
     pool ((tick ^^ 3) (onClick initialState amphetamine))"
proof -
  have a: "State.activities (onClick initialState amphetamine) = [amphetamine]"
    by (simp add: onClick_def initialState_def onActivityToggle_def)
  have p: "pool (onClick initialState amphetamine) = 50"
    by (simp add: onClick_def initialState_def)
  from amphetamine_scenario [of "onClick initialState amphetamine"] a p
  have "\<forall>n. 0 \<le> pool ((tick ^^ n) (onClick initialState amphetamine)) \<and>
    pool ((tick ^^ Suc n) (onClick initialState amphetamine)) \<le>
      pool ((tick ^^ n) (onClick initialState amphetamine))"
    by simp
  then have "0 \<le> pool ((tick ^^ 3) (onClick initialState amphetamine)) \<and>
    pool ((tick ^^ Suc 3) (onClick initialState amphetamine)) \<le>
      pool ((tick ^^ 3) (onClick initialState amphetamine))"
    by (rule spec)
  with a p show ?thesis by simp
qed


section \<open>Consumption, up to rounding\<close>

lemma factor_values:
  "factor (ACTIVITIES sleep) = - (3 / 4)"
  "factor (ACTIVITIES work) = 3 / 2"
  "factor (ACTIVITIES play) = 2"
  "factor (ACTIVITIES amphetamine) = 10"
  "factor (ACTIVITIES chocolate) = 3 / 2"
  "factor (ACTIVITIES sex) = 2"
  "factor (ACTIVITIES excercise) = 2"
  "factor (ACTIVITIES smoke) = 5 / 2"
  by (simp_all add: double_values)

lemma turnover_near:
  "\<bar>dopamineTurnover a t - 1 / 20 * factor (ACTIVITIES a)\<bar> \<le> 1 / 2 ^ 56"
  by (cases a) (simp_all add: dopamineTurnover_values double_values)

lemma turnover_exact_bound: "\<bar>1 / 20 * factor (ACTIVITIES a)\<bar> \<le> 1 / 2"
  by (cases a) (simp_all add: double_values)

lemma base_near: "\<bar>DopamineBaseTurnOverPerMinuteInPercent - 1 / 20\<bar> \<le> 1 / 2 ^ 56"
  by (simp add: js_defs double_values)

lemma slack_Suc: "slack (Suc k) = slack k + of_nat (k + 1) / 2 ^ 53"
  by (simp add: slack_def field_simps)

lemma slack_small:
  assumes "k < 2 ^ 20"
  shows "slack k \<le> 1 / 8"
proof -
  have "k * (k + 1) \<le> 2 ^ 20 * 2 ^ 20" using assms by (intro mult_mono) simp_all
  then have "(of_nat (k * (k + 1)) :: rat) \<le> of_nat (2 ^ 20 * 2 ^ 20)"
    by (simp only: of_nat_le_iff)
  then have "slack k \<le> of_nat (2 ^ 20 * 2 ^ 20) / 2 ^ 54"
    unfolding slack_def by (rule divide_right_mono) simp
  then show ?thesis by simp
qed

lemma add_step:
  assumes acc: "\<bar>acc - E\<bar> \<le> slack k" and E: "\<bar>E\<bar> \<le> of_nat k / 2"
    and t: "\<bar>t - e\<bar> \<le> 1 / 2 ^ 56" and e: "\<bar>e\<bar> \<le> 1 / 2" and k: "k < 2 ^ 20"
  shows "\<bar>js_add acc t - (E + e)\<bar> \<le> slack (Suc k)"
proof -
  define z where "z = acc + t"
  have s: "slack k \<le> 1 / 8" using k by (rule slack_small)
  have r: "\<bar>double z - z\<bar> \<le> \<bar>z\<bar> / 2 ^ 53 + 1 / 2 ^ 57"
  proof -
    have "max (\<bar>z\<bar> / 2 ^ 53) ((2::rat) powi (- 1075)) \<le> \<bar>z\<bar> / 2 ^ 53 + 1 / 2 ^ 57"
    proof (rule max.boundedI)
      show "\<bar>z\<bar> / 2 ^ 53 \<le> \<bar>z\<bar> / 2 ^ 53 + 1 / 2 ^ 57" by simp
      show "(2::rat) powi (- 1075) \<le> \<bar>z\<bar> / 2 ^ 53 + 1 / 2 ^ 57"
        by (rule order_trans [OF least_quantum_small]) simp
    qed
    then show ?thesis using double_error [of z] by (rule order_trans [rotated])
  qed
  have t8: "\<bar>t - e\<bar> \<le> 1 / 8" using t by simp
  have zE: "\<bar>z - (E + e)\<bar> \<le> slack k + 1 / 2 ^ 56"
    using acc t unfolding z_def by linarith
  have zb: "\<bar>z\<bar> \<le> of_nat k / 2 + 3 / 4"
    using acc t8 E e s unfolding z_def by linarith
  have "\<bar>z\<bar> / 2 ^ 53 \<le> (of_nat k / 2 + 3 / 4) / 2 ^ 53"
    using zb by (rule divide_right_mono) simp
  moreover have "(1::rat) / 2 ^ 57 = (1 / 16) / 2 ^ 53" "(1::rat) / 2 ^ 56 = (1 / 8) / 2 ^ 53"
    by simp_all
  moreover have "(of_nat k / 2 + 3 / 4) / 2 ^ 53 + (1 / 16) / 2 ^ 53 + (1 / 8) / 2 ^ 53
      = (of_nat k / 2 + 3 / 4 + 1 / 16 + 1 / 8) / (2 ^ 53 :: rat)"
    by (simp only: add_divide_distrib)
  moreover have "(of_nat k / 2 + 3 / 4 + 1 / 16 + 1 / 8) / (2 ^ 53 :: rat)
      \<le> of_nat (k + 1) / 2 ^ 53"
    by (rule divide_right_mono) simp_all
  ultimately have "\<bar>z\<bar> / 2 ^ 53 + 1 / 2 ^ 57 + 1 / 2 ^ 56 \<le> of_nat (k + 1) / 2 ^ 53"
    by linarith
  then have "\<bar>double z - (E + e)\<bar> \<le> slack k + of_nat (k + 1) / 2 ^ 53"
    using r zE by linarith
  then show ?thesis by (simp only: js_add_def z_def slack_Suc)
qed

lemma foldl_add_error:
  assumes "\<bar>acc - E\<bar> \<le> slack k" "\<bar>E\<bar> \<le> of_nat k / 2" "k + length xs \<le> 2 ^ 20"
  shows "\<bar>foldl (\<lambda>a b. js_add a b) acc (map (\<lambda>activity. dopamineTurnover activity 0) xs)
            - (E + (\<Sum>a\<leftarrow>xs. 1 / 20 * factor (ACTIVITIES a)))\<bar> \<le> slack (k + length xs)
         \<and> \<bar>E + (\<Sum>a\<leftarrow>xs. 1 / 20 * factor (ACTIVITIES a))\<bar> \<le> of_nat (k + length xs) / 2"
  using assms
proof (induction xs arbitrary: acc E k)
  case Nil
  then show ?case by simp
next
  case (Cons a xs)
  define e where "e = 1 / 20 * factor (ACTIVITIES a)"
  have k: "k < 2 ^ 20" using Cons.prems(3) by simp
  have 1: "\<bar>js_add acc (dopamineTurnover a 0) - (E + e)\<bar> \<le> slack (Suc k)"
    unfolding e_def
    by (rule add_step [OF Cons.prems(1,2) turnover_near turnover_exact_bound k])
  have "\<bar>E + e\<bar> \<le> of_nat k / 2 + 1 / 2"
    using Cons.prems(2) turnover_exact_bound [of a] unfolding e_def by linarith
  then have 2: "\<bar>E + e\<bar> \<le> of_nat (Suc k) / 2" by (simp add: add_divide_distrib)
  have 3: "Suc k + length xs \<le> 2 ^ 20" using Cons.prems(3) by simp
  from Cons.IH [OF 1 2 3] show ?case
    by (simp add: e_def add.assoc)
qed

lemma totalDopamineUse_error:
  assumes "length xs < 2 ^ 20"
  shows "\<bar>totalDopamineUse xs t - instantaneousConsumption xs\<bar>
           \<le> of_nat ((length xs + 1) * (length xs + 2)) / 2 ^ 54"
proof -
  define s where
    "s = foldl (\<lambda>a b. js_add a b) 0 (map (\<lambda>activity. dopamineTurnover activity 0) xs)"
  define E where "E = (\<Sum>a\<leftarrow>xs. 1 / 20 * factor (ACTIVITIES a))"
  have "\<bar>(0::rat) - 0\<bar> \<le> slack 0" "\<bar>0::rat\<bar> \<le> of_nat 0 / 2" "0 + length xs \<le> 2 ^ 20"
    using assms by (simp_all add: slack_def)
  from foldl_add_error [OF this]
  have a: "\<bar>s - E\<bar> \<le> slack (length xs)" and b: "\<bar>E\<bar> \<le> of_nat (length xs) / 2"
    by (simp_all add: s_def E_def)
  have c: "\<bar>(1::rat) / 20\<bar> \<le> 1 / 2" by simp
  from add_step [OF a b base_near c assms]
  have "\<bar>js_add s DopamineBaseTurnOverPerMinuteInPercent - (E + 1 / 20)\<bar>
      \<le> slack (Suc (length xs))" .
  moreover have "totalDopamineUse xs t = js_add s DopamineBaseTurnOverPerMinuteInPercent"
    by (simp add: totalDopamineUse_def s_def js_add_def add.commute)
  moreover have "instantaneousConsumption xs = E + 1 / 20"
    by (simp add: instantaneousConsumption_def E_def)
  moreover have "slack (Suc (length xs)) = of_nat ((length xs + 1) * (length xs + 2)) / 2 ^ 54"
    by (simp add: slack_def)
  ultimately show ?thesis by simp
qed

lemma instantaneousConsumption_mset:
  assumes "mset ys = mset xs"
  shows "instantaneousConsumption ys = instantaneousConsumption xs"
proof -
  have "sum_list (map f ys) = sum_list (map f xs)" for f :: "Activity \<Rightarrow> rat"
  proof -
    have "mset (map f ys) = mset (map f xs)" using assms by simp
    then have "sum_mset (mset (map f ys)) = sum_mset (mset (map f xs))" by simp
    then show ?thesis by (simp only: sum_mset_sum_list)
  qed
  then show ?thesis by (simp add: instantaneousConsumption_def)
qed

text \<open>
  Claim C1 as stated fails: the result depends on the order of the list. Sleep, work and
  amphetamine give \<^verbatim>\<open>0.5875\<close> in this order and \<^verbatim>\<open>0.5875000000000001\<close> when work comes
  last, because each addition rounds.
\<close>

theorem consumption_order_counterexample:
  "mset [sleep, work, amphetamine] = mset [sleep, amphetamine, work] \<and>
   totalDopamineUse [sleep, work, amphetamine] 0 = 5291729562160333 / 9007199254740992 \<and>
   totalDopamineUse [sleep, amphetamine, work] 0 = 2645864781080167 / 4503599627370496 \<and>
   totalDopamineUse [sleep, work, amphetamine] 0 \<noteq> totalDopamineUse [sleep, amphetamine, work] 0"
proof -
  have 1: "totalDopamineUse [sleep, work, amphetamine] 0 = 5291729562160333 / 9007199254740992"
    by (simp add: totalDopamineUse_def dopamineTurnover_values js_defs double_values)
  have 2: "totalDopamineUse [sleep, amphetamine, work] 0 = 2645864781080167 / 4503599627370496"
    by (simp add: totalDopamineUse_def dopamineTurnover_values js_defs double_values)
  have 3: "mset [sleep, work, amphetamine] = mset [sleep, amphetamine, work]"
    by (simp add: add_mset_commute)
  show ?thesis by (simp add: 1 2 3)
qed

text \<open>
  Claim C1, amended. The result does not depend on the time argument. For every list of
  fewer than \<open>2 ^ 20\<close> activities, of length \<open>n\<close>, it differs from the baseline plus the
  sum of baseline times factor, taken in exact arithmetic, by at most
  \<open>(n + 1) (n + 2) / 2 ^ 54\<close>. The exact value is the same for every order of the same
  members, so two orders give results at most \<open>(n + 1) (n + 2) / 2 ^ 53\<close> apart.
\<close>

theorem consumption_up_to_rounding:
  "totalDopamineUse xs t = totalDopamineUse xs 0 \<and>
   (length xs < 2 ^ 20 \<longrightarrow>
      \<bar>totalDopamineUse xs t - instantaneousConsumption xs\<bar>
        \<le> of_nat ((length xs + 1) * (length xs + 2)) / 2 ^ 54 \<and>
      (\<forall>ys. mset ys = mset xs \<longrightarrow>
         instantaneousConsumption ys = instantaneousConsumption xs \<and>
         \<bar>totalDopamineUse ys t - totalDopamineUse xs t\<bar>
           \<le> of_nat ((length xs + 1) * (length xs + 2)) / 2 ^ 53))"
proof (intro conjI impI allI)
  show "totalDopamineUse xs t = totalDopamineUse xs 0" by (simp add: totalDopamineUse_def)
next
  assume "length xs < 2 ^ 20"
  then show "\<bar>totalDopamineUse xs t - instantaneousConsumption xs\<bar>
        \<le> of_nat ((length xs + 1) * (length xs + 2)) / 2 ^ 54"
    by (rule totalDopamineUse_error)
next
  fix ys assume "mset ys = mset xs"
  then show "instantaneousConsumption ys = instantaneousConsumption xs"
    by (rule instantaneousConsumption_mset)
next
  fix ys assume l: "length xs < 2 ^ 20" and m: "mset ys = mset xs"
  define b :: rat where "b = of_nat ((length xs + 1) * (length xs + 2)) / 2 ^ 54"
  have ly: "length ys = length xs" using m by (rule mset_eq_length)
  then have "length ys < 2 ^ 20" using l by simp
  from totalDopamineUse_error [OF this, of t]
  have 1: "\<bar>totalDopamineUse ys t - instantaneousConsumption ys\<bar> \<le> b"
    by (simp only: ly b_def)
  from totalDopamineUse_error [OF l, of t]
  have 2: "\<bar>totalDopamineUse xs t - instantaneousConsumption xs\<bar> \<le> b"
    by (simp only: b_def)
  have 3: "instantaneousConsumption ys = instantaneousConsumption xs"
    using m by (rule instantaneousConsumption_mset)
  have "\<bar>totalDopamineUse ys t - totalDopamineUse xs t\<bar> \<le> b + b"
    using 1 2 3 by linarith
  also have "b + b = of_nat ((length xs + 1) * (length xs + 2)) / 2 ^ 53"
    unfolding b_def by (simp only: add_divide_distrib [symmetric]) simp
  finally show "\<bar>totalDopamineUse ys t - totalDopamineUse xs t\<bar>
           \<le> of_nat ((length xs + 1) * (length xs + 2)) / 2 ^ 53" .
qed

theorem consumption_up_to_rounding_witness:
  "length [sleep, work, amphetamine] < 2 ^ 20 \<and>
   mset [sleep, amphetamine, work] = mset [sleep, work, amphetamine] \<and>
   \<bar>totalDopamineUse [sleep, work, amphetamine] 0
      - instantaneousConsumption [sleep, work, amphetamine]\<bar> \<le> 20 / 2 ^ 54 \<and>
   \<bar>totalDopamineUse [sleep, amphetamine, work] 0
      - totalDopamineUse [sleep, work, amphetamine] 0\<bar> \<le> 20 / 2 ^ 53"
proof -
  define xs where "xs = [sleep, work, amphetamine]"
  define ys where "ys = [sleep, amphetamine, work]"
  have 1: "length xs < 2 ^ 20" by (simp add: xs_def)
  have 2: "mset ys = mset xs" by (simp add: xs_def ys_def add_mset_commute)
  have n: "(of_nat ((length xs + 1) * (length xs + 2)) :: rat) = 20" by (simp add: xs_def)
  from consumption_up_to_rounding [of xs 0]
  have "length xs < 2 ^ 20 \<longrightarrow>
      \<bar>totalDopamineUse xs 0 - instantaneousConsumption xs\<bar>
        \<le> of_nat ((length xs + 1) * (length xs + 2)) / 2 ^ 54 \<and>
      (\<forall>ys. mset ys = mset xs \<longrightarrow>
         instantaneousConsumption ys = instantaneousConsumption xs \<and>
         \<bar>totalDopamineUse ys 0 - totalDopamineUse xs 0\<bar>
           \<le> of_nat ((length xs + 1) * (length xs + 2)) / 2 ^ 53)"
    by (rule conjunct2)
  from mp [OF this 1]
  have 3: "\<bar>totalDopamineUse xs 0 - instantaneousConsumption xs\<bar>
        \<le> of_nat ((length xs + 1) * (length xs + 2)) / 2 ^ 54"
    and a: "\<forall>ys. mset ys = mset xs \<longrightarrow>
         instantaneousConsumption ys = instantaneousConsumption xs \<and>
         \<bar>totalDopamineUse ys 0 - totalDopamineUse xs 0\<bar>
           \<le> of_nat ((length xs + 1) * (length xs + 2)) / 2 ^ 53"
    by (rule conjunct1, rule conjunct2)
  from mp [OF spec [OF a] 2]
  have 4: "\<bar>totalDopamineUse ys 0 - totalDopamineUse xs 0\<bar>
           \<le> of_nat ((length xs + 1) * (length xs + 2)) / 2 ^ 53"
    by (rule conjunct2)
  from 1 2 3 4 show ?thesis unfolding n unfolding xs_def ys_def by (intro conjI)
qed

end
